theory Spec2Isabelle
  imports Main "HOL-Library.Sublist"
begin

section \<open>Python values and exceptions used by the MCP ambient server\<close>

text \<open>
  The development embeds \<^verbatim>\<open>mcp_ambient_server/client.py\<close> (class \<^verbatim>\<open>APIClient\<close>) and
  \<^verbatim>\<open>mcp_ambient_server/server.py\<close> (the registered tools and \<^verbatim>\<open>main\<close>).

  A Python \<^verbatim>\<open>str\<close> is a \<open>string\<close>, one \<open>char\<close> standing for one code point.
  A raised exception is a value \<open>Exn cls msg\<close>: its class and the text \<^verbatim>\<open>str(e)\<close>
  returns. A function that may raise returns \<open>exn + 'a\<close>, \<open>Inl\<close> being the raise.
  The classes are the ones the two modules raise, catch or can receive from the HTTP
  library and the interpreter, all derived from \<^verbatim>\<open>Exception\<close>; the signals that derive
  from \<^verbatim>\<open>BaseException\<close> only (task cancellation, interpreter exit) are not errors of
  an operation and are outside the model.
\<close>

datatype exn_class =
    Exception
  | ValueError
  | JSONDecodeError
  | AttributeError
  | TypeError
  | HTTPError
  | TransportError
  | NetworkError
  | ConnectError
  | ReadError
  | TimeoutException
  | ConnectTimeout
  | ReadTimeout

text \<open>The direct base class of each class (\<open>None\<close> at the root of the modelled part).\<close>

fun base_class :: "exn_class \<Rightarrow> exn_class option" where
  "base_class Exception = None"
| "base_class ValueError = Some Exception"
| "base_class JSONDecodeError = Some ValueError"
| "base_class AttributeError = Some Exception"
| "base_class TypeError = Some Exception"
| "base_class HTTPError = Some Exception"
| "base_class TransportError = Some HTTPError"
| "base_class NetworkError = Some TransportError"
| "base_class ConnectError = Some NetworkError"
| "base_class ReadError = Some NetworkError"
| "base_class TimeoutException = Some TransportError"
| "base_class ConnectTimeout = Some TimeoutException"
| "base_class ReadTimeout = Some TimeoutException"

text \<open>
  \<open>issubclass_upto n c d\<close> climbs at most \<open>n\<close> base classes from \<open>c\<close> looking for \<open>d\<close>;
  the hierarchy above is five levels deep.
\<close>

fun issubclass_upto :: "nat \<Rightarrow> exn_class \<Rightarrow> exn_class \<Rightarrow> bool" where
  "issubclass_upto 0 c d = (c = d)"
| "issubclass_upto (Suc n) c d =
     (c = d \<or> (case base_class c of None \<Rightarrow> False | Some b \<Rightarrow> issubclass_upto n b d))"

definition issubclass :: "exn_class \<Rightarrow> exn_class \<Rightarrow> bool" where
  "issubclass c d = issubclass_upto 5 c d"

datatype exn = Exn (cls: exn_class) (str: string)

definition isinstance :: "exn \<Rightarrow> exn_class \<Rightarrow> bool" where
  "isinstance e d = issubclass (cls e) d"

text \<open>
  A parsed JSON document as Python holds it. A \<^verbatim>\<open>dict\<close> is an association list read
  with \<open>map_of\<close>; a non-integer number keeps its literal text.
\<close>

datatype json_value =
    JNone
  | JBool bool
  | JInt int
  | JFloat string
  | JStr string
  | JList "json_value list"
  | JDict "(string \<times> json_value) list"

fun type_name :: "json_value \<Rightarrow> string" where
  "type_name JNone = ''NoneType''"
| "type_name (JBool b) = ''bool''"
| "type_name (JInt i) = ''int''"
| "type_name (JFloat f) = ''float''"
| "type_name (JStr s) = ''str''"
| "type_name (JList xs) = ''list''"
| "type_name (JDict kvs) = ''dict''"

text \<open>A name between apostrophes, as the interpreter's own messages quote one.\<close>

definition quoted :: "string \<Rightarrow> string" where
  "quoted s = [CHR 0x27] @ s @ [CHR 0x27]"

text \<open>
  \<^verbatim>\<open>data.get(key, default)\<close>: the lookup on a \<^verbatim>\<open>dict\<close>; on any other JSON value the
  attribute \<^verbatim>\<open>get\<close> does not exist and the interpreter raises \<^verbatim>\<open>AttributeError\<close>.
\<close>

fun py_get :: "json_value \<Rightarrow> string \<Rightarrow> json_value \<Rightarrow> exn + json_value" where
  "py_get (JDict kvs) key dflt =
     Inr (case map_of kvs key of None \<Rightarrow> dflt | Some v \<Rightarrow> v)"
| "py_get v key dflt =
     Inl (Exn AttributeError (quoted (type_name v) @ '' object has no attribute '' @ quoted ''get''))"

text \<open>\<^verbatim>\<open>len(x)\<close> on a JSON value: defined on \<^verbatim>\<open>list\<close>, \<^verbatim>\<open>str\<close> and \<^verbatim>\<open>dict\<close> only.\<close>

fun py_len :: "json_value \<Rightarrow> exn + int" where
  "py_len (JList xs) = Inr (int (length xs))"
| "py_len (JStr s) = Inr (int (length s))"
| "py_len (JDict kvs) = Inr (int (length kvs))"
| "py_len v = Inl (Exn TypeError (''object of type '' @ quoted (type_name v) @ '' has no len()''))"

text \<open>\<^verbatim>\<open>needle in haystack\<close> on strings: \<open>needle\<close> occurs as a contiguous substring.\<close>

definition py_in :: "string \<Rightarrow> string \<Rightarrow> bool" where
  "py_in needle haystack = sublist needle haystack"

text \<open>Truthiness of an \<^verbatim>\<open>Optional[str]\<close>: \<^verbatim>\<open>None\<close> and the empty string are falsy.\<close>

fun truthy :: "string option \<Rightarrow> bool" where
  "truthy None = False"
| "truthy (Some s) = (s \<noteq> [])"

text \<open>\<^verbatim>\<open>a or b\<close> where \<open>b\<close> is a string: \<open>a\<close> when it is truthy, else \<open>b\<close>.\<close>

definition py_or :: "string option \<Rightarrow> string \<Rightarrow> string" where
  "py_or a b = (if truthy a then the a else b)"

text \<open>\<^verbatim>\<open>os.getenv(name, default)\<close> over the process environment.\<close>

type_synonym environ = "string \<rightharpoonup> string"

definition getenv :: "environ \<Rightarrow> string \<Rightarrow> string \<Rightarrow> string" where
  "getenv env name dflt = (case env name of None \<Rightarrow> dflt | Some v \<Rightarrow> v)"

section \<open>The HTTP library as the client sees it\<close>

text \<open>
  \<^verbatim>\<open>httpx.AsyncClient\<close> is configured once with a base address, default headers and a
  timeout. One call of its \<^verbatim>\<open>get\<close> dispatches one request; the network answers a
  request with a response or the call raises. The network is a parameter \<open>net\<close>, and
  every operation returns, next to its result, the list of requests it dispatched.
\<close>

record AsyncClient =
  client_base_url :: string
  client_headers :: "(string \<times> string) list"
  client_timeout :: nat

record request =
  req_base_url :: string
  req_url :: string
  req_headers :: "(string \<times> string) list"
  req_timeout :: nat

text \<open>
  A response offers \<^verbatim>\<open>status_code\<close> and \<^verbatim>\<open>json()\<close>; the latter returns the parsed
  body or raises when the body is not JSON.
\<close>

record response =
  status_code :: int
  json :: "exn + json_value"

type_synonym network = "request \<Rightarrow> exn + response"

type_synonym 'a io = "(exn + 'a) \<times> request list"

text \<open>
  \<^verbatim>\<open>self.client.get(url)\<close> and \<^verbatim>\<open>self.client.get(url, base_url=b)\<close>. The method is
  \<^verbatim>\<open>AsyncClient.get(url, *, params, headers, cookies, auth, follow_redirects, timeout,
  extensions)\<close>: it has no parameter \<^verbatim>\<open>base_url\<close>. A call that passes this keyword raises
  \<^verbatim>\<open>TypeError\<close> when the interpreter binds the arguments, before any request is built;
  the message is the interpreter's. A call without it dispatches one request against the
  configured base address.
\<close>

definition unexpected_keyword_base_url :: string where
  "unexpected_keyword_base_url =
     ''AsyncClient.get() got an unexpected keyword argument '' @ quoted ''base_url''"

definition client_get :: "network \<Rightarrow> AsyncClient \<Rightarrow> string \<Rightarrow> string option \<Rightarrow> response io" where
  "client_get net c u base_url_keyword =
     (case base_url_keyword of
        Some b \<Rightarrow> (Inl (Exn TypeError unexpected_keyword_base_url), [])
      | None \<Rightarrow>
          (let rq = \<lparr> req_base_url = client_base_url c,
                      req_url = u,
                      req_headers = client_headers c,
                      req_timeout = client_timeout c \<rparr>
           in (net rq, [rq])))"

section \<open>client.py: APIClient\<close>

record APIClient =
  base_url :: string
  token :: string
  client :: AsyncClient

definition default_backend_api_url :: string where
  "default_backend_api_url = ''http://vteam-backend.ambient-code.svc.cluster.local:8080/api''"

text \<open>
  \<^verbatim>\<open>APIClient.__init__(base_url=None, token=None)\<close>. The constructor reads the
  environment and configures the HTTP client; it contains no call that dispatches a
  request, so the list of requests it returns is empty on both paths.
\<close>

definition APIClient_init :: "environ \<Rightarrow> string option \<Rightarrow> string option \<Rightarrow> APIClient io" where
  "APIClient_init env base_url_arg token_arg =
     (let b = py_or base_url_arg (getenv env ''BACKEND_API_URL'' default_backend_api_url);
          t = py_or token_arg (getenv env ''BOT_TOKEN'' [])
      in if t = [] then (Inl (Exn ValueError ''BOT_TOKEN environment variable must be set''), [])
         else (Inr \<lparr> base_url = b, token = t,
                     client = \<lparr> client_base_url = b,
                                client_headers = [(''Authorization'', ''Bearer '' @ t)],
                                client_timeout = 30 \<rparr> \<rparr>, []))"

text \<open>
  What the standard library computes and the two modules only call: \<^verbatim>\<open>repr\<close> of a
  \<^verbatim>\<open>float\<close>, \<^verbatim>\<open>list\<close> or \<^verbatim>\<open>dict\<close>, and \<^verbatim>\<open>json.dumps(data, indent=2)\<close>. Both are
  parameters of the model.
\<close>

record pylib =
  repr :: "json_value \<Rightarrow> string"
  dumps_indent2 :: "json_value \<Rightarrow> string"

text \<open>Decimal digits of a natural number, and \<^verbatim>\<open>str\<close> of an \<^verbatim>\<open>int\<close>.\<close>

function str_nat :: "nat \<Rightarrow> string" where
  "str_nat n = (if n < 10 then [''0123456789'' ! n] else str_nat (n div 10) @ [''0123456789'' ! (n mod 10)])"
  by pat_completeness auto
termination
  by (relation "measure (\<lambda>n. n)") auto

declare str_nat.simps [simp del]

definition str_int :: "int \<Rightarrow> string" where
  "str_int i = (if i < 0 then ''-'' @ str_nat (nat (- i)) else str_nat (nat i))"

text \<open>\<^verbatim>\<open>str(v)\<close>, which an f-string applies to an interpolated value.\<close>

fun py_str :: "pylib \<Rightarrow> json_value \<Rightarrow> string" where
  "py_str py (JStr s) = s"
| "py_str py JNone = ''None''"
| "py_str py (JBool b) = (if b then ''True'' else ''False'')"
| "py_str py (JInt i) = str_int i"
| "py_str py v = repr py v"

text \<open>
  \<^verbatim>\<open>str.capitalize()\<close>: the first character in upper case, the others in lower case
  (on the ASCII letters, which is all the resource kinds of the client contain).
\<close>

definition upper_char :: "char \<Rightarrow> char" where
  "upper_char c = (let n = (of_char c :: nat) in if 97 \<le> n \<and> n \<le> 122 then char_of (n - 32) else c)"

definition lower_char :: "char \<Rightarrow> char" where
  "lower_char c = (let n = (of_char c :: nat) in if 65 \<le> n \<and> n \<le> 90 then char_of (n + 32) else c)"

fun capitalize :: "string \<Rightarrow> string" where
  "capitalize [] = []"
| "capitalize (c # cs) = upper_char c # map lower_char cs"

text \<open>Sequencing of two steps either of which may raise.\<close>

definition and_then :: "exn + 'a \<Rightarrow> ('a \<Rightarrow> exn + 'b) \<Rightarrow> exn + 'b" where
  "and_then r f = (case r of Inl e \<Rightarrow> Inl e | Inr v \<Rightarrow> f v)"

text \<open>
  \<^verbatim>\<open>APIClient._handle_response(response, resource_type)\<close>. In the branch for a status of
  500 or more, the inner \<^verbatim>\<open>try ... except Exception: pass\<close> keeps the default message
  when \<^verbatim>\<open>json()\<close> raises or the body has no \<^verbatim>\<open>get\<close>.
\<close>

definition handle_response :: "pylib \<Rightarrow> response \<Rightarrow> string \<Rightarrow> exn + json_value" where
  "handle_response py response resource_type =
     (if status_code response \<ge> 200 \<and> status_code response < 300 then json response
      else if status_code response = 401 then
        Inl (Exn Exception ''Authentication failed. BOT_TOKEN may be invalid or expired.'')
      else if status_code response = 403 then
        Inl (Exn Exception (''Access denied. User does not have permission for this '' @ resource_type @ ''.''))
      else if status_code response = 404 then
        Inl (Exn Exception (capitalize resource_type @ '' not found''))
      else if status_code response \<ge> 500 then
        (let error_msg = JStr ''Unknown backend error''
         in case and_then (json response) (\<lambda>error_data. py_get error_data ''error'' error_msg) of
              Inr m \<Rightarrow> Inl (Exn Exception (''Backend API error: '' @ py_str py m))
            | Inl e \<Rightarrow>
                if isinstance e Exception
                then Inl (Exn Exception (''Backend API error: '' @ py_str py error_msg))
                else Inl e)
      else Inl (Exn Exception (''Request failed with status '' @ str_int (status_code response))))"

text \<open>
  The two handlers every operation ends with: \<^verbatim>\<open>except httpx.ConnectError\<close> and
  \<^verbatim>\<open>except httpx.TimeoutException\<close>, in this order; any other exception propagates.
\<close>

definition except_transport :: "exn + 'a \<Rightarrow> exn + 'a" where
  "except_transport r =
     (case r of
        Inr v \<Rightarrow> Inr v
      | Inl e \<Rightarrow>
          if isinstance e ConnectError then
            Inl (Exn Exception ''Cannot reach backend API. Check cluster connectivity.'')
          else if isinstance e TimeoutException then
            Inl (Exn Exception ''Request timed out after 30s. Backend may be overloaded.'')
          else Inl e)"

text \<open>
  The body shared by the operations: one \<^verbatim>\<open>get\<close>, then \<^verbatim>\<open>_handle_response\<close>, then
  what the operation does with the parsed body, all inside the \<^verbatim>\<open>try\<close>.
\<close>

definition request_json ::
  "pylib \<Rightarrow> network \<Rightarrow> APIClient \<Rightarrow> string \<Rightarrow> string option \<Rightarrow> string \<Rightarrow> (json_value \<Rightarrow> exn + json_value) \<Rightarrow> json_value io" where
  "request_json py net self u b resource_type k =
     (let (r, sent) = client_get net (client self) u b
      in (except_transport
            (and_then r (\<lambda>response. and_then (handle_response py response resource_type) k)), sent))"

definition APIClient_list_projects :: "pylib \<Rightarrow> network \<Rightarrow> APIClient \<Rightarrow> json_value io" where
  "APIClient_list_projects py net self =
     request_json py net self ''/projects'' None ''projects''
       (\<lambda>data. py_get data ''items'' (JList []))"

definition APIClient_get_project :: "pylib \<Rightarrow> network \<Rightarrow> APIClient \<Rightarrow> string \<Rightarrow> json_value io" where
  "APIClient_get_project py net self project_name =
     request_json py net self (''/projects/'' @ project_name) None ''project'' Inr"

definition APIClient_check_project_access :: "pylib \<Rightarrow> network \<Rightarrow> APIClient \<Rightarrow> string \<Rightarrow> json_value io" where
  "APIClient_check_project_access py net self project_name =
     request_json py net self (''/projects/'' @ project_name @ ''/access'') None
       ''access information'' Inr"

definition APIClient_list_sessions :: "pylib \<Rightarrow> network \<Rightarrow> APIClient \<Rightarrow> string \<Rightarrow> json_value io" where
  "APIClient_list_sessions py net self project_name =
     request_json py net self (''/projects/'' @ project_name @ ''/agentic-sessions'') None
       ''sessions'' (\<lambda>data. py_get data ''items'' (JList []))"

definition APIClient_get_session ::
  "pylib \<Rightarrow> network \<Rightarrow> APIClient \<Rightarrow> string \<Rightarrow> string \<Rightarrow> json_value io" where
  "APIClient_get_session py net self project_name session_name =
     request_json py net self
       (''/projects/'' @ project_name @ ''/agentic-sessions/'' @ session_name) None
       ''session'' Inr"

definition APIClient_get_session_k8s_resources ::
  "pylib \<Rightarrow> network \<Rightarrow> APIClient \<Rightarrow> string \<Rightarrow> string \<Rightarrow> json_value io" where
  "APIClient_get_session_k8s_resources py net self project_name session_name =
     request_json py net self
       (''/projects/'' @ project_name @ ''/agentic-sessions/'' @ session_name @ ''/k8s-resources'')
       None ''k8s resources'' Inr"

definition APIClient_list_session_workspace ::
  "pylib \<Rightarrow> network \<Rightarrow> APIClient \<Rightarrow> string \<Rightarrow> string \<Rightarrow> json_value io" where
  "APIClient_list_session_workspace py net self project_name session_name =
     request_json py net self
       (''/projects/'' @ project_name @ ''/agentic-sessions/'' @ session_name @ ''/workspace'')
       None ''workspace'' (\<lambda>data. py_get data ''files'' (JList []))"

text \<open>
  \<^verbatim>\<open>APIClient.get_workspace_file\<close>: the check of the path stands before the \<^verbatim>\<open>try\<close>,
  so its \<^verbatim>\<open>ValueError\<close> is raised with nothing dispatched.
\<close>

definition APIClient_get_workspace_file ::
  "pylib \<Rightarrow> network \<Rightarrow> APIClient \<Rightarrow> string \<Rightarrow> string \<Rightarrow> string \<Rightarrow> json_value io" where
  "APIClient_get_workspace_file py net self project_name session_name path =
     (if py_in ''..'' path then
        (Inl (Exn ValueError (''Path cannot contain '' @ quoted ''..'' @ '' components'')), [])
      else
        request_json py net self
          (''/projects/'' @ project_name @ ''/agentic-sessions/'' @ session_name @ ''/workspace/'' @ path)
          None ''file'' Inr)"

definition APIClient_list_ootb_workflows :: "pylib \<Rightarrow> network \<Rightarrow> APIClient \<Rightarrow> json_value io" where
  "APIClient_list_ootb_workflows py net self =
     request_json py net self ''/workflows/ootb'' None ''workflows''
       (\<lambda>data. py_get data ''workflows'' (JList []))"

definition APIClient_get_workflow_metadata ::
  "pylib \<Rightarrow> network \<Rightarrow> APIClient \<Rightarrow> string \<Rightarrow> string \<Rightarrow> json_value io" where
  "APIClient_get_workflow_metadata py net self project_name session_name =
     request_json py net self
       (''/projects/'' @ project_name @ ''/agentic-sessions/'' @ session_name @ ''/workflow/metadata'')
       None ''workflow metadata'' Inr"

definition APIClient_get_cluster_info :: "pylib \<Rightarrow> network \<Rightarrow> APIClient \<Rightarrow> json_value io" where
  "APIClient_get_cluster_info py net self =
     request_json py net self ''/cluster-info'' None ''cluster info'' Inr"

text \<open>
  \<^verbatim>\<open>str.replace(old, new)\<close>: every occurrence of \<open>old\<close>, found from the left and
  without overlap, becomes \<open>new\<close>. With an empty \<open>old\<close>, \<open>new\<close> is put before
  every character and at the end.
\<close>

function replace_nonempty :: "string \<Rightarrow> string \<Rightarrow> string \<Rightarrow> string" where
  "replace_nonempty old new s =
     (if old = [] \<or> s = [] then s
      else if prefix old s then new @ replace_nonempty old new (drop (length old) s)
      else hd s # replace_nonempty old new (tl s))"
  by pat_completeness auto
termination
  by (relation "measure (\<lambda>(old, new, s). length s)") auto

declare replace_nonempty.simps [simp del]

definition replace :: "string \<Rightarrow> string \<Rightarrow> string \<Rightarrow> string" where
  "replace s old new =
     (if old = [] then new @ concat (map (\<lambda>c. c # new) s) else replace_nonempty old new s)"

text \<open>
  \<^verbatim>\<open>APIClient.get_health\<close>: the one operation that calls \<^verbatim>\<open>get\<close> with the keyword
  \<^verbatim>\<open>base_url\<close>, its value \<^verbatim>\<open>self.base_url.replace("/api", "")\<close> computed first. The
  \<^verbatim>\<open>TypeError\<close> of that call is neither a \<^verbatim>\<open>ConnectError\<close> nor a
  \<^verbatim>\<open>TimeoutException\<close>, so it leaves the operation.
\<close>

definition APIClient_get_health :: "pylib \<Rightarrow> network \<Rightarrow> APIClient \<Rightarrow> json_value io" where
  "APIClient_get_health py net self =
     request_json py net self ''/health'' (Some (replace (base_url self) ''/api'' []))
       ''health status'' Inr"

section \<open>server.py: the registered tools and main\<close>

text \<open>
  The module keeps the client in the global \<^verbatim>\<open>api_client\<close>, \<^verbatim>\<open>None\<close> until \<^verbatim>\<open>main\<close>
  assigns it; calling a method on \<^verbatim>\<open>None\<close> raises \<^verbatim>\<open>AttributeError\<close>. Every tool is
  embedded twice: \<open>f_try\<close> is the outcome of its \<^verbatim>\<open>try\<close> block, of type \<open>exn + string\<close>,
  and \<open>f\<close> is the whole function, the handlers applied to that outcome. The type of
  \<open>f\<close> is \<open>exn + string\<close> too, so that an exception leaving the tool would show as
  \<open>Inl\<close>. Both come with the requests the client call dispatched. The calls of
  \<^verbatim>\<open>logger.error\<close> write to the standard error stream and are left out.
\<close>

definition format_json :: "pylib \<Rightarrow> json_value \<Rightarrow> string" where
  "format_json py data = dumps_indent2 py data"

definition api_client_call :: "APIClient option \<Rightarrow> string \<Rightarrow> (APIClient \<Rightarrow> 'a io) \<Rightarrow> 'a io" where
  "api_client_call api_client method f =
     (case api_client of
        None \<Rightarrow> (Inl (Exn AttributeError
                   (quoted ''NoneType'' @ '' object has no attribute '' @ quoted method)), [])
      | Some c \<Rightarrow> f c)"

text \<open>\<^verbatim>\<open>return format_json(data)\<close> after the client call.\<close>

definition return_object :: "pylib \<Rightarrow> json_value io \<Rightarrow> string io" where
  "return_object py call =
     (let (r, sent) = call
      in (and_then r (\<lambda>data. Inr (format_json py data)), sent))"

text \<open>\<^verbatim>\<open>return format_json({field: xs, "count": len(xs)})\<close> after the client call.\<close>

definition return_listing :: "pylib \<Rightarrow> string \<Rightarrow> json_value io \<Rightarrow> string io" where
  "return_listing py field call =
     (let (r, sent) = call
      in (and_then r (\<lambda>xs. and_then (py_len xs) (\<lambda>n.
            Inr (format_json py (JDict [(field, xs), (''count'', JInt n)])))), sent))"

text \<open>\<^verbatim>\<open>except Exception as e: return f"<prefix>{str(e)}"\<close>, the last handler of every tool.\<close>

definition except_Exception :: "string \<Rightarrow> string io \<Rightarrow> string io" where
  "except_Exception pre body =
     (let (r, sent) = body
      in (case r of
            Inr s \<Rightarrow> Inr s
          | Inl e \<Rightarrow> if isinstance e Exception then Inr (pre @ str e) else Inl e, sent))"

text \<open>
  \<^verbatim>\<open>get_workspace_file\<close> is the one tool with two handlers: \<^verbatim>\<open>except ValueError\<close> comes
  first and answers with its own prefix, \<^verbatim>\<open>except Exception\<close> second.
\<close>

definition except_ValueError_Exception :: "string \<Rightarrow> string \<Rightarrow> string io \<Rightarrow> string io" where
  "except_ValueError_Exception pre_value pre body =
     (let (r, sent) = body
      in (case r of
            Inr s \<Rightarrow> Inr s
          | Inl e \<Rightarrow>
              if isinstance e ValueError then Inr (pre_value @ str e)
              else if isinstance e Exception then Inr (pre @ str e)
              else Inl e, sent))"

definition list_projects_try ::
  "pylib \<Rightarrow> network \<Rightarrow> APIClient option \<Rightarrow> string io" where
  "list_projects_try py net api_client =
     return_listing py ''projects''
       (api_client_call api_client ''list_projects''
          (\<lambda>c. APIClient_list_projects py net c))"

definition list_projects ::
  "pylib \<Rightarrow> network \<Rightarrow> APIClient option \<Rightarrow> string io" where
  "list_projects py net api_client =
     except_Exception ''Error listing projects: ''
       (list_projects_try py net api_client)"

definition get_project_try ::
  "pylib \<Rightarrow> network \<Rightarrow> APIClient option \<Rightarrow> string \<Rightarrow> string io" where
  "get_project_try py net api_client project_name =
     return_object py
       (api_client_call api_client ''get_project''
          (\<lambda>c. APIClient_get_project py net c project_name))"

definition get_project ::
  "pylib \<Rightarrow> network \<Rightarrow> APIClient option \<Rightarrow> string \<Rightarrow> string io" where
  "get_project py net api_client project_name =
     except_Exception ''Error getting project: ''
       (get_project_try py net api_client project_name)"

definition check_project_access_try ::
  "pylib \<Rightarrow> network \<Rightarrow> APIClient option \<Rightarrow> string \<Rightarrow> string io" where
  "check_project_access_try py net api_client project_name =
     return_object py
       (api_client_call api_client ''check_project_access''
          (\<lambda>c. APIClient_check_project_access py net c project_name))"

definition check_project_access ::
  "pylib \<Rightarrow> network \<Rightarrow> APIClient option \<Rightarrow> string \<Rightarrow> string io" where
  "check_project_access py net api_client project_name =
     except_Exception ''Error checking project access: ''
       (check_project_access_try py net api_client project_name)"

definition list_sessions_try ::
  "pylib \<Rightarrow> network \<Rightarrow> APIClient option \<Rightarrow> string \<Rightarrow> string io" where
  "list_sessions_try py net api_client project_name =
     return_listing py ''sessions''
       (api_client_call api_client ''list_sessions''
          (\<lambda>c. APIClient_list_sessions py net c project_name))"

definition list_sessions ::
  "pylib \<Rightarrow> network \<Rightarrow> APIClient option \<Rightarrow> string \<Rightarrow> string io" where
  "list_sessions py net api_client project_name =
     except_Exception ''Error listing sessions: ''
       (list_sessions_try py net api_client project_name)"

definition get_session_try ::
  "pylib \<Rightarrow> network \<Rightarrow> APIClient option \<Rightarrow> string \<Rightarrow> string \<Rightarrow> string io" where
  "get_session_try py net api_client project_name session_name =
     return_object py
       (api_client_call api_client ''get_session''
          (\<lambda>c. APIClient_get_session py net c project_name session_name))"

definition get_session ::
  "pylib \<Rightarrow> network \<Rightarrow> APIClient option \<Rightarrow> string \<Rightarrow> string \<Rightarrow> string io" where
  "get_session py net api_client project_name session_name =
     except_Exception ''Error getting session: ''
       (get_session_try py net api_client project_name session_name)"

definition get_session_k8s_resources_try ::
  "pylib \<Rightarrow> network \<Rightarrow> APIClient option \<Rightarrow> string \<Rightarrow> string \<Rightarrow> string io" where
  "get_session_k8s_resources_try py net api_client project_name session_name =
     return_object py
       (api_client_call api_client ''get_session_k8s_resources''
          (\<lambda>c. APIClient_get_session_k8s_resources py net c project_name session_name))"

definition get_session_k8s_resources ::
  "pylib \<Rightarrow> network \<Rightarrow> APIClient option \<Rightarrow> string \<Rightarrow> string \<Rightarrow> string io" where
  "get_session_k8s_resources py net api_client project_name session_name =
     except_Exception ''Error getting Kubernetes resources: ''
       (get_session_k8s_resources_try py net api_client project_name session_name)"

definition list_session_workspace_try ::
  "pylib \<Rightarrow> network \<Rightarrow> APIClient option \<Rightarrow> string \<Rightarrow> string \<Rightarrow> string io" where
  "list_session_workspace_try py net api_client project_name session_name =
     return_listing py ''files''
       (api_client_call api_client ''list_session_workspace''
          (\<lambda>c. APIClient_list_session_workspace py net c project_name session_name))"

definition list_session_workspace ::
  "pylib \<Rightarrow> network \<Rightarrow> APIClient option \<Rightarrow> string \<Rightarrow> string \<Rightarrow> string io" where
  "list_session_workspace py net api_client project_name session_name =
     except_Exception ''Error listing workspace: ''
       (list_session_workspace_try py net api_client project_name session_name)"

definition get_workspace_file_try ::
  "pylib \<Rightarrow> network \<Rightarrow> APIClient option \<Rightarrow> string \<Rightarrow> string \<Rightarrow> string \<Rightarrow> string io" where
  "get_workspace_file_try py net api_client project_name session_name path =
     return_object py
       (api_client_call api_client ''get_workspace_file''
          (\<lambda>c. APIClient_get_workspace_file py net c project_name session_name path))"

definition get_workspace_file ::
  "pylib \<Rightarrow> network \<Rightarrow> APIClient option \<Rightarrow> string \<Rightarrow> string \<Rightarrow> string \<Rightarrow> string io" where
  "get_workspace_file py net api_client project_name session_name path =
     except_ValueError_Exception ''Invalid path: '' ''Error getting workspace file: ''
       (get_workspace_file_try py net api_client project_name session_name path)"

definition list_ootb_workflows_try ::
  "pylib \<Rightarrow> network \<Rightarrow> APIClient option \<Rightarrow> string io" where
  "list_ootb_workflows_try py net api_client =
     return_listing py ''workflows''
       (api_client_call api_client ''list_ootb_workflows''
          (\<lambda>c. APIClient_list_ootb_workflows py net c))"

definition list_ootb_workflows ::
  "pylib \<Rightarrow> network \<Rightarrow> APIClient option \<Rightarrow> string io" where
  "list_ootb_workflows py net api_client =
     except_Exception ''Error listing workflows: ''
       (list_ootb_workflows_try py net api_client)"

definition get_workflow_metadata_try ::
  "pylib \<Rightarrow> network \<Rightarrow> APIClient option \<Rightarrow> string \<Rightarrow> string \<Rightarrow> string io" where
  "get_workflow_metadata_try py net api_client project_name session_name =
     return_object py
       (api_client_call api_client ''get_workflow_metadata''
          (\<lambda>c. APIClient_get_workflow_metadata py net c project_name session_name))"

definition get_workflow_metadata ::
  "pylib \<Rightarrow> network \<Rightarrow> APIClient option \<Rightarrow> string \<Rightarrow> string \<Rightarrow> string io" where
  "get_workflow_metadata py net api_client project_name session_name =
     except_Exception ''Error getting workflow metadata: ''
       (get_workflow_metadata_try py net api_client project_name session_name)"

definition get_cluster_info_try ::
  "pylib \<Rightarrow> network \<Rightarrow> APIClient option \<Rightarrow> string io" where
  "get_cluster_info_try py net api_client =
     return_object py
       (api_client_call api_client ''get_cluster_info''
          (\<lambda>c. APIClient_get_cluster_info py net c))"

definition get_cluster_info ::
  "pylib \<Rightarrow> network \<Rightarrow> APIClient option \<Rightarrow> string io" where
  "get_cluster_info py net api_client =
     except_Exception ''Error getting cluster info: ''
       (get_cluster_info_try py net api_client)"

definition get_health_try ::
  "pylib \<Rightarrow> network \<Rightarrow> APIClient option \<Rightarrow> string io" where
  "get_health_try py net api_client =
     return_object py
       (api_client_call api_client ''get_health''
          (\<lambda>c. APIClient_get_health py net c))"

definition get_health ::
  "pylib \<Rightarrow> network \<Rightarrow> APIClient option \<Rightarrow> string io" where
  "get_health py net api_client =
     except_Exception ''Error getting health status: ''
       (get_health_try py net api_client)"

text \<open>
  \<^verbatim>\<open>main()\<close>: construct the client from the environment, then serve. \<open>mcp_run\<close> is what
  \<^verbatim>\<open>mcp.run(transport="stdio")\<close> does once entered: return (\<open>None\<close>) or raise.
  \<^verbatim>\<open>sys.exit(1)\<close> in either handler ends the process with code 1; returning from
  \<^verbatim>\<open>main\<close> ends it with code 0. \<open>served\<close> tells whether \<^verbatim>\<open>mcp.run\<close> was entered.
\<close>

record main_result =
  exit_code :: int
  api_client_global :: "APIClient option"
  served :: bool
  startup_requests :: "request list"

definition main :: "environ \<Rightarrow> exn option \<Rightarrow> exn + main_result" where
  "main env mcp_run =
     (let (r, sent) = APIClient_init env None None;
          (body, g, sv) =
            (case r of
               Inl e \<Rightarrow> (Inl e, None, False)
             | Inr c \<Rightarrow> (case mcp_run of
                          None \<Rightarrow> (Inr (), Some c, True)
                        | Some e \<Rightarrow> (Inl e, Some c, True)))
      in case body of
           Inr u \<Rightarrow>
             Inr \<lparr> exit_code = 0, api_client_global = g, served = sv, startup_requests = sent \<rparr>
         | Inl e \<Rightarrow>
             if isinstance e ValueError then
               Inr \<lparr> exit_code = 1, api_client_global = g, served = sv, startup_requests = sent \<rparr>
             else if isinstance e Exception then
               Inr \<lparr> exit_code = 1, api_client_global = g, served = sv, startup_requests = sent \<rparr>
             else Inl e)"

section \<open>The catalogue of operations\<close>

text \<open>
  The twelve operations, as the client offers them and as the server registers them
  under the same names; \<open>APIClient_call\<close> and \<open>call_tool\<close> select by name and pass the
  arguments on.
\<close>

datatype operation =
    Op_list_projects
  | Op_get_project string
  | Op_check_project_access string
  | Op_list_sessions string
  | Op_get_session string string
  | Op_get_session_k8s_resources string string
  | Op_list_session_workspace string string
  | Op_get_workspace_file string string string
  | Op_list_ootb_workflows
  | Op_get_workflow_metadata string string
  | Op_get_cluster_info
  | Op_get_health

fun APIClient_call :: "pylib \<Rightarrow> network \<Rightarrow> APIClient \<Rightarrow> operation \<Rightarrow> json_value io" where
  "APIClient_call py net self Op_list_projects = APIClient_list_projects py net self"
| "APIClient_call py net self (Op_get_project p) = APIClient_get_project py net self p"
| "APIClient_call py net self (Op_check_project_access p) = APIClient_check_project_access py net self p"
| "APIClient_call py net self (Op_list_sessions p) = APIClient_list_sessions py net self p"
| "APIClient_call py net self (Op_get_session p s) = APIClient_get_session py net self p s"
| "APIClient_call py net self (Op_get_session_k8s_resources p s) = APIClient_get_session_k8s_resources py net self p s"
| "APIClient_call py net self (Op_list_session_workspace p s) = APIClient_list_session_workspace py net self p s"
| "APIClient_call py net self (Op_get_workspace_file p s f) = APIClient_get_workspace_file py net self p s f"
| "APIClient_call py net self Op_list_ootb_workflows = APIClient_list_ootb_workflows py net self"
| "APIClient_call py net self (Op_get_workflow_metadata p s) = APIClient_get_workflow_metadata py net self p s"
| "APIClient_call py net self Op_get_cluster_info = APIClient_get_cluster_info py net self"
| "APIClient_call py net self Op_get_health = APIClient_get_health py net self"


fun call_tool :: "pylib \<Rightarrow> network \<Rightarrow> APIClient option \<Rightarrow> operation \<Rightarrow> string io" where
  "call_tool py net api_client Op_list_projects = list_projects py net api_client"
| "call_tool py net api_client (Op_get_project p) = get_project py net api_client p"
| "call_tool py net api_client (Op_check_project_access p) = check_project_access py net api_client p"
| "call_tool py net api_client (Op_list_sessions p) = list_sessions py net api_client p"
| "call_tool py net api_client (Op_get_session p s) = get_session py net api_client p s"
| "call_tool py net api_client (Op_get_session_k8s_resources p s) = get_session_k8s_resources py net api_client p s"
| "call_tool py net api_client (Op_list_session_workspace p s) = list_session_workspace py net api_client p s"
| "call_tool py net api_client (Op_get_workspace_file p s f) = get_workspace_file py net api_client p s f"
| "call_tool py net api_client Op_list_ootb_workflows = list_ootb_workflows py net api_client"
| "call_tool py net api_client (Op_get_workflow_metadata p s) = get_workflow_metadata py net api_client p s"
| "call_tool py net api_client Op_get_cluster_info = get_cluster_info py net api_client"
| "call_tool py net api_client Op_get_health = get_health py net api_client"

text \<open>
  The fixtures of \<^verbatim>\<open>tests/test_client.py\<close>: a client built with the given address and
  token, \<open>get\<close> patched to return one response, and \<open>get\<close> patched to raise.
\<close>

definition mock_get :: "response \<Rightarrow> network" where
  "mock_get r = (\<lambda>rq. Inr r)"

definition mock_get_raises :: "exn \<Rightarrow> network" where
  "mock_get_raises e = (\<lambda>rq. Inl e)"

definition test_client :: "string \<Rightarrow> string \<Rightarrow> APIClient" where
  "test_client b t =
     \<lparr> base_url = b, token = t,
       client = \<lparr> client_base_url = b,
                  client_headers = [(''Authorization'', ''Bearer '' @ t)],
                  client_timeout = 30 \<rparr> \<rparr>"

definition test_pylib :: pylib where
  "test_pylib = \<lparr> repr = type_name, dumps_indent2 = type_name \<rparr>"

text \<open>
  Per operation: the resource kind it passes to \<^verbatim>\<open>_handle_response\<close>, the field a
  listing operation reads from the parsed body with \<^verbatim>\<open>data.get(field, [])\<close>, and
  whether the check of the path turns the call down.
\<close>

fun resource_kind :: "operation \<Rightarrow> string" where
  "resource_kind Op_list_projects = ''projects''"
| "resource_kind (Op_get_project p) = ''project''"
| "resource_kind (Op_check_project_access p) = ''access information''"
| "resource_kind (Op_list_sessions p) = ''sessions''"
| "resource_kind (Op_get_session p s) = ''session''"
| "resource_kind (Op_get_session_k8s_resources p s) = ''k8s resources''"
| "resource_kind (Op_list_session_workspace p s) = ''workspace''"
| "resource_kind (Op_get_workspace_file p s f) = ''file''"
| "resource_kind Op_list_ootb_workflows = ''workflows''"
| "resource_kind (Op_get_workflow_metadata p s) = ''workflow metadata''"
| "resource_kind Op_get_cluster_info = ''cluster info''"
| "resource_kind Op_get_health = ''health status''"

fun collection_field :: "operation \<Rightarrow> string option" where
  "collection_field Op_list_projects = Some ''items''"
| "collection_field (Op_list_sessions p) = Some ''items''"
| "collection_field (Op_list_session_workspace p s) = Some ''files''"
| "collection_field Op_list_ootb_workflows = Some ''workflows''"
| "collection_field other = None"

definition unwrap :: "operation \<Rightarrow> json_value \<Rightarrow> exn + json_value" where
  "unwrap op data =
     (case collection_field op of
        None \<Rightarrow> Inr data
      | Some field \<Rightarrow> py_get data field (JList []))"

fun path_gate_rejects :: "operation \<Rightarrow> bool" where
  "path_gate_rejects (Op_get_workspace_file p s f) = py_in ''..'' f"
| "path_gate_rejects other = False"

text \<open>
  The message of a backend error as the specification words it: the \<^verbatim>\<open>error\<close> field of
  the JSON body when there is one, a fixed text otherwise.
\<close>

definition backend_error_message :: "pylib \<Rightarrow> response \<Rightarrow> string" where
  "backend_error_message py r =
     (case json r of
        Inr (JDict kvs) \<Rightarrow>
          (case map_of kvs ''error'' of
             Some v \<Rightarrow> py_str py v
           | None \<Rightarrow> ''Unknown backend error'')
      | _ \<Rightarrow> ''Unknown backend error'')"


text \<open>The segments of a path: \<^verbatim>\<open>path.split("/")\<close>.\<close>

fun path_segments :: "string \<Rightarrow> string list" where
  "path_segments [] = [[]]"
| "path_segments (c # cs) =
     (let r = path_segments cs
      in if c = CHR ''/'' then [] # r else (c # hd r) # tl r)"


section \<open>Shared facts\<close>

lemma isinstance_Exception: "isinstance e Exception"
  by (cases e; rename_tac c m; case_tac c)
     (simp_all add: isinstance_def issubclass_def eval_nat_numeral)

lemma path_gate:
  "py_in ''..'' path \<Longrightarrow>
   APIClient_get_workspace_file py net self project_name session_name path =
     (Inl (Exn ValueError ''Path cannot contain '..' components''), [])"
  by (simp add: APIClient_get_workspace_file_def quoted_def)

lemma dotdot_in_notes: "py_in ''..'' ''notes..txt''"
  by (simp add: py_in_def sublist_Cons_right)

lemma init_missing:
  "env ''BOT_TOKEN'' = None \<Longrightarrow>
   APIClient_init env base_url_arg None =
     (Inl (Exn ValueError ''BOT_TOKEN environment variable must be set''), [])"
  by (simp add: APIClient_init_def py_or_def getenv_def)

lemma except_transport_Exception:
  "except_transport (Inl (Exn Exception m)) = Inl (Exn Exception m)"
  by (simp add: except_transport_def isinstance_def issubclass_def eval_nat_numeral)

lemma except_transport_Inr: "except_transport (Inr v) = Inr v"
  by (simp add: except_transport_def)

lemma request_json_sent:
  "snd (request_json py net self u None rt k) =
     [\<lparr> req_base_url = client_base_url (client self),
        req_url = u, req_headers = client_headers (client self),
        req_timeout = client_timeout (client self) \<rparr>]"
  by (simp add: request_json_def client_get_def Let_def)

lemma request_json_mock:
  "fst (request_json py (mock_get r) self u None rt k) =
     except_transport (and_then (handle_response py r rt) k)"
  by (simp add: request_json_def client_get_def mock_get_def and_then_def Let_def)

lemma request_json_keyword:
  "request_json py net self u (Some b) rt k =
     (Inl (Exn TypeError unexpected_keyword_base_url), [])"
  by (simp add: request_json_def client_get_def and_then_def except_transport_def
        isinstance_def issubclass_def eval_nat_numeral)

lemma get_health_raises:
  "APIClient_get_health py net self = (Inl (Exn TypeError unexpected_keyword_base_url), [])"
  by (simp add: APIClient_get_health_def request_json_keyword)

lemmas APIClient_defs =
  APIClient_list_projects_def APIClient_get_project_def APIClient_check_project_access_def
  APIClient_list_sessions_def APIClient_get_session_def APIClient_get_session_k8s_resources_def
  APIClient_list_session_workspace_def APIClient_get_workspace_file_def
  APIClient_list_ootb_workflows_def APIClient_get_workflow_metadata_def
  APIClient_get_cluster_info_def APIClient_get_health_def

lemma unwrap_eq:
  "unwrap op = (case collection_field op of None \<Rightarrow> Inr | Some f \<Rightarrow> (\<lambda>data. py_get data f (JList [])))"
  by (rule ext) (simp add: unwrap_def split: option.split)

lemma APIClient_call_mock:
  "\<not> path_gate_rejects op \<Longrightarrow> op \<noteq> Op_get_health \<Longrightarrow>
   fst (APIClient_call py (mock_get r) self op) =
     except_transport (and_then (handle_response py r (resource_kind op)) (unwrap op))"
proof (cases op)
  case (Op_get_workspace_file p s f)
  assume "\<not> path_gate_rejects op"
  with Op_get_workspace_file have "\<not> py_in ''..'' f" by simp
  with Op_get_workspace_file show ?thesis
    by (simp only: APIClient_call.simps APIClient_get_workspace_file_def request_json_mock
          resource_kind.simps if_False unwrap_eq collection_field.simps option.case)
next
  case Op_get_health
  assume "op \<noteq> Op_get_health"
  with Op_get_health show ?thesis by simp
qed (simp_all only: APIClient_call.simps APIClient_defs request_json_mock resource_kind.simps
        unwrap_eq collection_field.simps option.case)

lemma APIClient_call_sent:
  "length (snd (APIClient_call py net self op)) =
     (if path_gate_rejects op \<or> op = Op_get_health then 0 else 1)"
proof (cases op)
  case (Op_get_workspace_file p s f)
  then show ?thesis
    by (simp add: APIClient_get_workspace_file_def request_json_sent)
next
  case Op_get_health
  then show ?thesis by (simp add: get_health_raises)
qed (simp_all add: APIClient_defs request_json_sent)

lemma handle_response_2xx:
  "200 \<le> status_code r \<Longrightarrow> status_code r < 300 \<Longrightarrow> handle_response py r rt = json r"
  by (simp add: handle_response_def)

lemma handle_response_401:
  "status_code r = 401 \<Longrightarrow>
   handle_response py r rt =
     Inl (Exn Exception ''Authentication failed. BOT_TOKEN may be invalid or expired.'')"
  by (simp add: handle_response_def)

lemma handle_response_403:
  "status_code r = 403 \<Longrightarrow>
   handle_response py r rt =
     Inl (Exn Exception (''Access denied. User does not have permission for this '' @ rt @ ''.''))"
  by (simp add: handle_response_def)

lemma handle_response_404:
  "status_code r = 404 \<Longrightarrow>
   handle_response py r rt = Inl (Exn Exception (capitalize rt @ '' not found''))"
  by (simp add: handle_response_def)

lemma backend_lookup:
  "(case and_then j (\<lambda>error_data. py_get error_data ''error'' (JStr ''Unknown backend error'')) of
      Inr m \<Rightarrow> py_str py m
    | Inl e \<Rightarrow> ''Unknown backend error'') =
   (case j of
      Inr (JDict kvs) \<Rightarrow>
        (case map_of kvs ''error'' of Some v \<Rightarrow> py_str py v | None \<Rightarrow> ''Unknown backend error'')
    | _ \<Rightarrow> ''Unknown backend error'')"
proof (cases j)
  case (Inl e)
  then show ?thesis by (simp add: and_then_def)
next
  case (Inr v)
  then show ?thesis by (cases v) (simp_all add: and_then_def split: option.split)
qed

lemma handle_response_5xx:
  "500 \<le> status_code r \<Longrightarrow>
   handle_response py r rt =
     Inl (Exn Exception (''Backend API error: '' @ backend_error_message py r))"
proof -
  assume h: "500 \<le> status_code r"
  have "handle_response py r rt =
    Inl (Exn Exception (''Backend API error: '' @
      (case and_then (json r) (\<lambda>error_data. py_get error_data ''error'' (JStr ''Unknown backend error'')) of
         Inr m \<Rightarrow> py_str py m | Inl e \<Rightarrow> ''Unknown backend error'')))"
    using h by (simp add: handle_response_def Let_def isinstance_Exception split: sum.split)
  then show ?thesis by (simp only: backend_lookup backend_error_message_def)
qed

lemma handle_response_other:
  "\<not> (200 \<le> status_code r \<and> status_code r < 300) \<Longrightarrow> status_code r \<noteq> 401 \<Longrightarrow>
   status_code r \<noteq> 403 \<Longrightarrow> status_code r \<noteq> 404 \<Longrightarrow> status_code r < 500 \<Longrightarrow>
   handle_response py r rt =
     Inl (Exn Exception (''Request failed with status '' @ str_int (status_code r)))"
  by (auto simp add: handle_response_def)

lemma capitalize_project: "capitalize ''project'' = ''Project''"
  by code_simp

lemma call_error:
  "\<not> path_gate_rejects op \<Longrightarrow> op \<noteq> Op_get_health \<Longrightarrow>
   handle_response py r (resource_kind op) = Inl (Exn Exception m) \<Longrightarrow>
   fst (APIClient_call py (mock_get r) self op) = Inl (Exn Exception m)"
  by (simp add: APIClient_call_mock and_then_def except_transport_Exception)

lemma str_int_418: "str_int 418 = ''418''"
  by (simp add: str_int_def str_nat.simps)

lemma listing_field:
  "collection_field op = Some f \<Longrightarrow> 200 \<le> status_code r \<Longrightarrow> status_code r < 300 \<Longrightarrow>
   json r = Inr (JDict kvs) \<Longrightarrow>
   fst (APIClient_call py (mock_get r) self op) =
     Inr (case map_of kvs f of Some xs \<Rightarrow> xs | None \<Rightarrow> JList [])"
proof -
  assume f: "collection_field op = Some f" and lo: "200 \<le> status_code r"
    and hi: "status_code r < 300" and j: "json r = Inr (JDict kvs)"
  from f have gate: "\<not> path_gate_rejects op" by (cases op) simp_all
  from f have health: "op \<noteq> Op_get_health" by (cases op) simp_all
  have "handle_response py r (resource_kind op) = Inr (JDict kvs)"
    using lo hi j by (simp add: handle_response_2xx)
  then show ?thesis
    using f by (simp add: APIClient_call_mock [OF gate health] and_then_def unwrap_def
                  except_transport_Inr split: option.split)
qed

lemma except_Exception_Inr:
  "\<exists>text. fst (except_Exception pre body) = Inr text"
  by (cases body; cases "fst body")
     (auto simp add: except_Exception_def isinstance_Exception)

lemma except_ValueError_Exception_Inr:
  "\<exists>text. fst (except_ValueError_Exception pre_value pre body) = Inr text"
  by (cases body; cases "fst body")
     (auto simp add: except_ValueError_Exception_def isinstance_Exception)

lemmas tool_defs =
  list_projects_def get_project_def check_project_access_def list_sessions_def get_session_def
  get_session_k8s_resources_def list_session_workspace_def get_workspace_file_def
  list_ootb_workflows_def get_workflow_metadata_def get_cluster_info_def get_health_def







lemma get_project_404:
  "status_code r = 404 \<Longrightarrow>
   fst (APIClient_get_project py (mock_get r) self project_name) =
     Inl (Exn Exception ''Project not found'')"
  using call_error [of "Op_get_project project_name" py r "''Project not found''" self]
  by (simp add: handle_response_404 capitalize_project del: capitalize.simps)

lemma replace_api_host:
  "replace ''http://api.example.com/api'' ''/api'' [] = ''http:/.example.com''"
  by (simp add: replace_def replace_nonempty.simps)

lemma capitalize_kind:
  "capitalize (resource_kind op) \<in> set [''Projects'', ''Project'', ''Access information'',
      ''Sessions'', ''Session'', ''K8s resources'', ''Workspace'', ''File'', ''Workflows'',
      ''Workflow metadata'', ''Cluster info'', ''Health status'']"
proof (cases op)
  case Op_list_projects
  have "capitalize ''projects'' = ''Projects''" by code_simp
  with Op_list_projects show ?thesis by (simp del: capitalize.simps)
next
  case (Op_get_project p)
  with capitalize_project show ?thesis by (simp del: capitalize.simps)
next
  case (Op_check_project_access p)
  have "capitalize ''access information'' = ''Access information''" by code_simp
  with Op_check_project_access show ?thesis by (simp del: capitalize.simps)
next
  case (Op_list_sessions p)
  have "capitalize ''sessions'' = ''Sessions''" by code_simp
  with Op_list_sessions show ?thesis by (simp del: capitalize.simps)
next
  case (Op_get_session p s)
  have "capitalize ''session'' = ''Session''" by code_simp
  with Op_get_session show ?thesis by (simp del: capitalize.simps)
next
  case (Op_get_session_k8s_resources p s)
  have "capitalize ''k8s resources'' = ''K8s resources''" by code_simp
  with Op_get_session_k8s_resources show ?thesis by (simp del: capitalize.simps)
next
  case (Op_list_session_workspace p s)
  have "capitalize ''workspace'' = ''Workspace''" by code_simp
  with Op_list_session_workspace show ?thesis by (simp del: capitalize.simps)
next
  case (Op_get_workspace_file p s f)
  have "capitalize ''file'' = ''File''" by code_simp
  with Op_get_workspace_file show ?thesis by (simp del: capitalize.simps)
next
  case Op_list_ootb_workflows
  have "capitalize ''workflows'' = ''Workflows''" by code_simp
  with Op_list_ootb_workflows show ?thesis by (simp del: capitalize.simps)
next
  case (Op_get_workflow_metadata p s)
  have "capitalize ''workflow metadata'' = ''Workflow metadata''" by code_simp
  with Op_get_workflow_metadata show ?thesis by (simp del: capitalize.simps)
next
  case Op_get_cluster_info
  have "capitalize ''cluster info'' = ''Cluster info''" by code_simp
  with Op_get_cluster_info show ?thesis by (simp del: capitalize.simps)
next
  case Op_get_health
  have "capitalize ''health status'' = ''Health status''" by code_simp
  with Op_get_health show ?thesis by (simp del: capitalize.simps)
qed

lemma error_messages_distinct:
  "distinct
     [''Authentication failed. BOT_TOKEN may be invalid or expired.'',
      ''Access denied. User does not have permission for this '' @ resource_kind op @ ''.'',
      capitalize (resource_kind op) @ '' not found'',
      ''Backend API error: '' @ m,
      ''Request failed with status '' @ n]"
  using capitalize_kind [of op] by (auto simp del: capitalize.simps)



lemma lower_project_not_found: "map lower_char ''Project not found'' = ''project not found''"
  by code_simp

section \<open>The path gate of the client\<close>

text \<open>
  C1. Whatever the project name, the session name and the network, a path in which the
  string \<^verbatim>\<open>..\<close> occurs anywhere makes \<^verbatim>\<open>APIClient.get_workspace_file\<close> raise the
  \<^verbatim>\<open>ValueError\<close> of the path check, and the list of dispatched requests is empty.
\<close>

theorem get_workspace_file_rejects_dotdot:
  "py_in ''..'' path \<Longrightarrow>
   APIClient_get_workspace_file py net self project_name session_name path =
     (Inl (Exn ValueError ''Path cannot contain '..' components''), [])"
  by (rule path_gate)

theorem get_workspace_file_rejects_dotdot_witness:
  "py_in ''..'' ''../etc/passwd'' \<and>
   APIClient_get_workspace_file test_pylib
     (mock_get_raises (Exn ConnectError ''Connection refused''))
     (test_client ''http://test-backend:8080/api'' ''test-token-12345'')
     ''test-project'' ''test-session'' ''../etc/passwd'' =
     (Inl (Exn ValueError ''Path cannot contain '..' components''), [])"
proof -
  have h: "py_in ''..'' ''../etc/passwd''" by (simp add: py_in_def)
  show ?thesis using h get_workspace_file_rejects_dotdot [OF h] by simp
qed

text \<open>
  C9. The check is on substrings, not on segments: the path \<^verbatim>\<open>notes..txt\<close> is a single
  segment, none of its segments is \<^verbatim>\<open>..\<close>, and the operation still raises the
  \<^verbatim>\<open>ValueError\<close> with nothing dispatched.
\<close>

theorem get_workspace_file_rejects_by_substring:
  "APIClient_get_workspace_file py net self project_name session_name ''notes..txt'' =
     (Inl (Exn ValueError ''Path cannot contain '..' components''), [])
   \<and> path_segments ''notes..txt'' = [''notes..txt'']
   \<and> ''..'' \<notin> set (path_segments ''notes..txt'')"
  using path_gate [OF dotdot_in_notes] by simp

section \<open>Construction of the client and startup\<close>

text \<open>
  C4. With no token argument and \<^verbatim>\<open>BOT_TOKEN\<close> unset, the constructor raises
  \<^verbatim>\<open>ValueError\<close> with no request dispatched and no client created, and \<^verbatim>\<open>main\<close> ends
  the process with exit code 1, the global client still \<^verbatim>\<open>None\<close>, before serving.
\<close>

theorem missing_credential_fails_construction:
  "env ''BOT_TOKEN'' = None \<Longrightarrow>
   APIClient_init env base_url_arg None =
     (Inl (Exn ValueError ''BOT_TOKEN environment variable must be set''), [])
   \<and> main env mcp_run =
       Inr \<lparr> exit_code = 1, api_client_global = None, served = False,
             startup_requests = [] \<rparr>"
  by (simp add: init_missing main_def isinstance_def issubclass_def eval_nat_numeral)

theorem missing_credential_fails_construction_witness:
  "[''BACKEND_API_URL'' \<mapsto> ''http://test-backend:8080/api''] ''BOT_TOKEN'' = None
   \<and> APIClient_init [''BACKEND_API_URL'' \<mapsto> ''http://test-backend:8080/api''] None None =
       (Inl (Exn ValueError ''BOT_TOKEN environment variable must be set''), [])
   \<and> main [''BACKEND_API_URL'' \<mapsto> ''http://test-backend:8080/api''] None =
       Inr \<lparr> exit_code = 1, api_client_global = None, served = False,
             startup_requests = [] \<rparr>"
  using missing_credential_fails_construction
          [of "[''BACKEND_API_URL'' \<mapsto> ''http://test-backend:8080/api'']" None None]
  by simp

text \<open>
  C10. An empty \<^verbatim>\<open>BOT_TOKEN\<close> counts as missing: with no token argument, construction
  under an environment where the variable is the empty string does exactly what it does
  where the variable is unset, and that is the \<^verbatim>\<open>ValueError\<close> of the missing token.
\<close>

theorem empty_credential_counts_as_missing:
  "APIClient_init (env(''BOT_TOKEN'' \<mapsto> [])) base_url_arg None =
     APIClient_init (env(''BOT_TOKEN'' := None)) base_url_arg None
   \<and> APIClient_init (env(''BOT_TOKEN'' \<mapsto> [])) base_url_arg None =
       (Inl (Exn ValueError ''BOT_TOKEN environment variable must be set''), [])"
  by (simp add: APIClient_init_def py_or_def getenv_def)

section \<open>Normalisation of responses\<close>

text \<open>
  C2. Every operation of the client that receives a response: all of them but
  \<^verbatim>\<open>get_health\<close>, whose call of \<^verbatim>\<open>get\<close> raises before a request exists, and
  \<^verbatim>\<open>get_workspace_file\<close> when the path check turns the call down. Its one request is
  answered by \<open>r\<close>. With a status from 200 to 299 and a body that parses,
  \<^verbatim>\<open>_handle_response\<close> returns the parsed body, which the operation returns as it is, or,
  for a listing operation, reads its collection field from. A status of 401 raises the
  authentication error; 403 the access error, which names the resource kind; 404 the
  not-found error; 500 or more the backend error, whose message ends with the
  \<^verbatim>\<open>error\<close> field of the body when the body is an object that has one, and with the
  fixed text otherwise; every other status the error that carries the status code. The
  code raises the class \<^verbatim>\<open>Exception\<close> in all five branches and tells the categories
  apart by the message: the five messages are pairwise different, so the error of one
  branch is never the error of another. Whatever the network does, the operation
  dispatches exactly one request: nothing is retried.
\<close>

theorem response_normalisation:
  "\<not> path_gate_rejects op \<Longrightarrow> op \<noteq> Op_get_health \<Longrightarrow>
   (200 \<le> status_code r \<and> status_code r < 300 \<and> json r = Inr body \<longrightarrow>
      handle_response py r (resource_kind op) = Inr body
      \<and> fst (APIClient_call py (mock_get r) self op) =
          (case collection_field op of
             None \<Rightarrow> Inr body
           | Some field \<Rightarrow> py_get body field (JList [])))
   \<and> (status_code r = 401 \<longrightarrow>
        fst (APIClient_call py (mock_get r) self op) =
          Inl (Exn Exception ''Authentication failed. BOT_TOKEN may be invalid or expired.''))
   \<and> (status_code r = 403 \<longrightarrow>
        fst (APIClient_call py (mock_get r) self op) =
          Inl (Exn Exception (''Access denied. User does not have permission for this ''
                                @ resource_kind op @ ''.'')))
   \<and> (status_code r = 404 \<longrightarrow>
        fst (APIClient_call py (mock_get r) self op) =
          Inl (Exn Exception (capitalize (resource_kind op) @ '' not found'')))
   \<and> (500 \<le> status_code r \<longrightarrow>
        fst (APIClient_call py (mock_get r) self op) =
          Inl (Exn Exception (''Backend API error: '' @ backend_error_message py r)))
   \<and> (\<not> (200 \<le> status_code r \<and> status_code r < 300) \<and> status_code r \<noteq> 401
        \<and> status_code r \<noteq> 403 \<and> status_code r \<noteq> 404 \<and> status_code r < 500 \<longrightarrow>
        fst (APIClient_call py (mock_get r) self op) =
          Inl (Exn Exception (''Request failed with status '' @ str_int (status_code r))))
   \<and> distinct
        [''Authentication failed. BOT_TOKEN may be invalid or expired.'',
         ''Access denied. User does not have permission for this '' @ resource_kind op @ ''.'',
         capitalize (resource_kind op) @ '' not found'',
         ''Backend API error: '' @ backend_error_message py r,
         ''Request failed with status '' @ str_int (status_code r)]
   \<and> length (snd (APIClient_call py net self op)) = 1"
proof -
  assume gate: "\<not> path_gate_rejects op" and health: "op \<noteq> Op_get_health"
  note call = APIClient_call_mock [OF gate health, of py r self]
  have ok: "200 \<le> status_code r \<and> status_code r < 300 \<and> json r = Inr body \<longrightarrow>
      handle_response py r (resource_kind op) = Inr body
      \<and> fst (APIClient_call py (mock_get r) self op) =
          (case collection_field op of
             None \<Rightarrow> Inr body
           | Some field \<Rightarrow> py_get body field (JList []))"
  proof (intro impI conjI)
    assume h: "200 \<le> status_code r \<and> status_code r < 300 \<and> json r = Inr body"
    then show hr: "handle_response py r (resource_kind op) = Inr body"
      by (simp add: handle_response_2xx)
    have "fst (APIClient_call py (mock_get r) self op) = unwrap op body"
    proof (cases "unwrap op body")
      case (Inl e)
      then obtain f where f: "collection_field op = Some f" and g: "py_get body f (JList []) = Inl e"
        by (auto simp add: unwrap_def split: option.splits)
      from g have "cls e = AttributeError" by (cases body) auto
      then have "except_transport (Inl e) = Inl e"
        by (cases e) (simp add: except_transport_def isinstance_def issubclass_def eval_nat_numeral)
      with Inl show ?thesis by (simp add: call hr and_then_def)
    next
      case (Inr v)
      then show ?thesis by (simp add: call hr and_then_def except_transport_Inr)
    qed
    then show "fst (APIClient_call py (mock_get r) self op) =
          (case collection_field op of
             None \<Rightarrow> Inr body
           | Some field \<Rightarrow> py_get body field (JList []))"
      by (simp add: unwrap_def)
  qed
  have e401: "status_code r = 401 \<longrightarrow>
        fst (APIClient_call py (mock_get r) self op) =
          Inl (Exn Exception ''Authentication failed. BOT_TOKEN may be invalid or expired.'')"
    by (intro impI call_error [OF gate health] handle_response_401)
  have e403: "status_code r = 403 \<longrightarrow>
        fst (APIClient_call py (mock_get r) self op) =
          Inl (Exn Exception (''Access denied. User does not have permission for this ''
                                @ resource_kind op @ ''.''))"
    by (intro impI call_error [OF gate health] handle_response_403)
  have e404: "status_code r = 404 \<longrightarrow>
        fst (APIClient_call py (mock_get r) self op) =
          Inl (Exn Exception (capitalize (resource_kind op) @ '' not found''))"
    by (intro impI call_error [OF gate health] handle_response_404)
  have e5xx: "500 \<le> status_code r \<longrightarrow>
        fst (APIClient_call py (mock_get r) self op) =
          Inl (Exn Exception (''Backend API error: '' @ backend_error_message py r))"
    by (intro impI call_error [OF gate health] handle_response_5xx)
  have other: "\<not> (200 \<le> status_code r \<and> status_code r < 300) \<and> status_code r \<noteq> 401
        \<and> status_code r \<noteq> 403 \<and> status_code r \<noteq> 404 \<and> status_code r < 500 \<longrightarrow>
        fst (APIClient_call py (mock_get r) self op) =
          Inl (Exn Exception (''Request failed with status '' @ str_int (status_code r)))"
  proof
    assume h: "\<not> (200 \<le> status_code r \<and> status_code r < 300) \<and> status_code r \<noteq> 401
        \<and> status_code r \<noteq> 403 \<and> status_code r \<noteq> 404 \<and> status_code r < 500"
    then have "handle_response py r (resource_kind op) =
        Inl (Exn Exception (''Request failed with status '' @ str_int (status_code r)))"
      by (intro handle_response_other) simp_all
    then show "fst (APIClient_call py (mock_get r) self op) =
          Inl (Exn Exception (''Request failed with status '' @ str_int (status_code r)))"
      by (rule call_error [OF gate health])
  qed
  have once: "length (snd (APIClient_call py net self op)) = 1"
    using gate health by (simp add: APIClient_call_sent)
  note apart = error_messages_distinct
                 [of op "backend_error_message py r" "str_int (status_code r)"]
  from ok e401 e403 e404 e5xx other apart once show ?thesis by (intro conjI)
qed

theorem response_normalisation_witness:
  "\<not> path_gate_rejects (Op_get_project ''p1'')
   \<and> Op_get_project ''p1'' \<noteq> Op_get_health
   \<and> fst (APIClient_call test_pylib
            (mock_get \<lparr> status_code = 200, json = Inr (JDict [(''name'', JStr ''p1'')]) \<rparr>)
            (test_client ''http://test-backend:8080/api'' ''tok-123'') (Op_get_project ''p1'')) =
       Inr (JDict [(''name'', JStr ''p1'')])
   \<and> fst (APIClient_call test_pylib (mock_get \<lparr> status_code = 401, json = Inr JNone \<rparr>)
            (test_client ''http://test-backend:8080/api'' ''tok-123'') (Op_get_project ''p1'')) =
       Inl (Exn Exception ''Authentication failed. BOT_TOKEN may be invalid or expired.'')
   \<and> fst (APIClient_call test_pylib (mock_get \<lparr> status_code = 403, json = Inr JNone \<rparr>)
            (test_client ''http://test-backend:8080/api'' ''tok-123'') (Op_get_project ''p1'')) =
       Inl (Exn Exception ''Access denied. User does not have permission for this project.'')
   \<and> fst (APIClient_call test_pylib (mock_get \<lparr> status_code = 404, json = Inr JNone \<rparr>)
            (test_client ''http://test-backend:8080/api'' ''tok-123'') (Op_get_project ''p1'')) =
       Inl (Exn Exception ''Project not found'')
   \<and> fst (APIClient_call test_pylib
            (mock_get \<lparr> status_code = 500,
                        json = Inr (JDict [(''error'', JStr ''Internal server error'')]) \<rparr>)
            (test_client ''http://test-backend:8080/api'' ''tok-123'') (Op_get_project ''p1'')) =
       Inl (Exn Exception ''Backend API error: Internal server error'')
   \<and> fst (APIClient_call test_pylib (mock_get \<lparr> status_code = 418, json = Inr JNone \<rparr>)
            (test_client ''http://test-backend:8080/api'' ''tok-123'') (Op_get_project ''p1'')) =
       Inl (Exn Exception ''Request failed with status 418'')
   \<and> length (snd (APIClient_call test_pylib (mock_get \<lparr> status_code = 418, json = Inr JNone \<rparr>)
            (test_client ''http://test-backend:8080/api'' ''tok-123'') (Op_get_project ''p1''))) = 1"
proof -
  have g: "\<not> path_gate_rejects (Op_get_project ''p1'')" by simp
  have h: "Op_get_project ''p1'' \<noteq> Op_get_health" by simp
  note n = response_normalisation [OF g h, where py = test_pylib
             and self = "test_client ''http://test-backend:8080/api'' ''tok-123''"
             and net = "mock_get \<lparr> status_code = 418, json = Inr JNone \<rparr>"]
  show ?thesis
    using g h
      n [where r = "\<lparr> status_code = 200, json = Inr (JDict [(''name'', JStr ''p1'')]) \<rparr>"
            and body = "JDict [(''name'', JStr ''p1'')]"]
      n [where r = "\<lparr> status_code = 401, json = Inr JNone \<rparr>"]
      n [where r = "\<lparr> status_code = 403, json = Inr JNone \<rparr>"]
      n [where r = "\<lparr> status_code = 404, json = Inr JNone \<rparr>"]
      n [where r = "\<lparr> status_code = 500, json = Inr (JDict [(''error'', JStr ''Internal server error'')]) \<rparr>"]
      n [where r = "\<lparr> status_code = 418, json = Inr JNone \<rparr>"]
    by (simp add: unwrap_def capitalize_project backend_error_message_def str_int_418
          del: capitalize.simps)
qed

text \<open>
  C5. For a response with a status from 200 to 299 whose parsed body is an object
  (the \<^verbatim>\<open>dict\<close> that \<^verbatim>\<open>_handle_response\<close> is declared to return), each listing operation
  returns the value stored under its field, \<^verbatim>\<open>items\<close> for projects and sessions,
  \<^verbatim>\<open>files\<close> for the workspace, \<^verbatim>\<open>workflows\<close> for the workflows, unchanged and so in
  the order received; when the field is absent it returns the empty list and raises
  nothing.
\<close>

theorem listing_returns_collection_field:
  "200 \<le> status_code r \<Longrightarrow> status_code r < 300 \<Longrightarrow> json r = Inr (JDict kvs) \<Longrightarrow>
   fst (APIClient_list_projects py (mock_get r) self) =
     Inr (case map_of kvs ''items'' of Some xs \<Rightarrow> xs | None \<Rightarrow> JList [])
   \<and> fst (APIClient_list_sessions py (mock_get r) self project_name) =
     Inr (case map_of kvs ''items'' of Some xs \<Rightarrow> xs | None \<Rightarrow> JList [])
   \<and> fst (APIClient_list_session_workspace py (mock_get r) self project_name session_name) =
     Inr (case map_of kvs ''files'' of Some xs \<Rightarrow> xs | None \<Rightarrow> JList [])
   \<and> fst (APIClient_list_ootb_workflows py (mock_get r) self) =
     Inr (case map_of kvs ''workflows'' of Some xs \<Rightarrow> xs | None \<Rightarrow> JList [])"
proof -
  assume h: "200 \<le> status_code r" "status_code r < 300" "json r = Inr (JDict kvs)"
  show ?thesis
    using listing_field [OF _ h, of Op_list_projects "''items''" py self]
      listing_field [OF _ h, of "Op_list_sessions project_name" "''items''" py self]
      listing_field [OF _ h, of "Op_list_session_workspace project_name session_name" "''files''" py self]
      listing_field [OF _ h, of Op_list_ootb_workflows "''workflows''" py self]
    by simp
qed

theorem listing_returns_collection_field_witness:
  "fst (APIClient_list_projects test_pylib
          (mock_get \<lparr> status_code = 200,
                      json = Inr (JDict [(''items'',
                               JList [JDict [(''metadata'', JDict [(''name'', JStr ''p1'')])],
                                      JDict [(''metadata'', JDict [(''name'', JStr ''p2'')])]])]) \<rparr>)
          (test_client ''http://test-backend:8080/api'' ''tok-123'')) =
     Inr (JList [JDict [(''metadata'', JDict [(''name'', JStr ''p1'')])],
                 JDict [(''metadata'', JDict [(''name'', JStr ''p2'')])]])
   \<and> fst (APIClient_list_ootb_workflows test_pylib
          (mock_get \<lparr> status_code = 200,
                      json = Inr (JDict [(''items'',
                               JList [JDict [(''metadata'', JDict [(''name'', JStr ''p1'')])],
                                      JDict [(''metadata'', JDict [(''name'', JStr ''p2'')])]])]) \<rparr>)
          (test_client ''http://test-backend:8080/api'' ''tok-123'')) =
     Inr (JList [])"
  using listing_returns_collection_field
          [where r = "\<lparr> status_code = 200,
                      json = Inr (JDict [(''items'',
                               JList [JDict [(''metadata'', JDict [(''name'', JStr ''p1'')])],
                                      JDict [(''metadata'', JDict [(''name'', JStr ''p2'')])]])]) \<rparr>"
             and kvs = "[(''items'',
                               JList [JDict [(''metadata'', JDict [(''name'', JStr ''p1'')])],
                                      JDict [(''metadata'', JDict [(''name'', JStr ''p2'')])]])]"
             and py = test_pylib
             and self = "test_client ''http://test-backend:8080/api'' ''tok-123''"]
  by simp

section \<open>The boundary of the tools\<close>

text \<open>
  C3. Every tool, for every network behaviour (any response, any exception of the
  HTTP library), every client state and every argument, ends with a text: whatever the
  client raises, the \<^verbatim>\<open>ValueError\<close> of the path check included, is turned into the
  returned string and never leaves the tool.
\<close>

theorem tool_always_returns_text:
  "\<exists>text. fst (call_tool py net api_client op) = Inr text"
  by (cases op)
     (simp_all only: call_tool.simps tool_defs except_Exception_Inr except_ValueError_Exception_Inr)




section \<open>Messages and addresses\<close>

text \<open>
  C7. \<^verbatim>\<open>get_project\<close> answered with status 404 raises the not-found error: its message
  is \<^verbatim>\<open>Project not found\<close>, the resource kind \<^verbatim>\<open>project\<close> with its first letter in
  upper case, as \<^verbatim>\<open>capitalize\<close> leaves it, followed by \<^verbatim>\<open>not found\<close>.
\<close>

theorem get_project_not_found_message:
  "status_code r = 404 \<Longrightarrow>
   fst (APIClient_get_project py (mock_get r) self project_name) =
     Inl (Exn Exception ''Project not found'')
   \<and> ''Project not found'' = capitalize ''project'' @ '' not found''
   \<and> py_in ''Project'' ''Project not found''
   \<and> py_in ''project'' (map lower_char ''Project not found'')
   \<and> py_in ''not found'' ''Project not found''"
proof -
  assume h: "status_code r = 404"
  have l: "py_in ''project'' (map lower_char ''Project not found'')"
    by (simp only: lower_project_not_found) (simp add: py_in_def sublist_Cons_right)
  show ?thesis
    using l
    by (simp add: get_project_404 [OF h] capitalize_project py_in_def sublist_Cons_right
          del: capitalize.simps list.map)
qed

theorem get_project_not_found_message_witness:
  "fst (APIClient_get_project test_pylib (mock_get \<lparr> status_code = 404, json = Inr JNone \<rparr>)
          (test_client ''http://test-backend:8080/api'' ''tok-123'') ''nonexistent'') =
     Inl (Exn Exception ''Project not found'')"
  using get_project_not_found_message
          [of "\<lparr> status_code = 404, json = Inr JNone \<rparr>" test_pylib
              "test_client ''http://test-backend:8080/api'' ''tok-123''" "''nonexistent''"]
  by simp

text \<open>
  C8. \<^verbatim>\<open>get_health\<close> dispatches no request at all, whatever the base address and the
  network: it passes \<^verbatim>\<open>base_url\<close> to \<^verbatim>\<open>get\<close>, which has no such parameter, so the
  call raises \<^verbatim>\<open>TypeError\<close> and the operation ends with that error. The value it
  computes for the keyword, \<^verbatim>\<open>self.base_url.replace("/api", "")\<close>, has every
  occurrence of \<^verbatim>\<open>/api\<close> removed, not the suffix alone: for the base address
  \<^verbatim>\<open>http://api.example.com/api\<close> it is \<^verbatim>\<open>http:/.example.com\<close>.
\<close>

theorem get_health_dispatches_nothing:
  "APIClient_get_health py net self =
     (Inl (Exn TypeError unexpected_keyword_base_url), [])
   \<and> replace ''http://api.example.com/api'' ''/api'' [] = ''http:/.example.com''"
  by (simp add: get_health_raises replace_api_host)

end
